theory Spec2Isabelle
  imports Main
begin

section \<open>The directory walker of \<open>prisma/load_bulk_data.py\<close>\<close>

text \<open>
  The script lists a fixed directory \<open>data_path\<close>, keeps the stems of its
  sub-directories other than "Energy Calibration" as molecules, and for each molecule
  lists \<open>data_path / molecule\<close>, takes the first directory-typed entry as the edge,
  and prints one line per entry of that edge whose suffix is ".txt".

  Python strings are modelled as \<open>string\<close>; the development is about names made of
  ASCII characters (one \<open>char\<close> per character).
\<close>

subsection \<open>Strings: \<open>rfind\<close>, \<open>split\<close>, slicing, \<open>upper\<close>\<close>

datatype fault = FileNotFoundError | NotADirectoryError | IndexError | ValueError

text \<open>\<open>name.rfind('.')\<close>: the highest index of the character, \<open>None\<close> for Python's -1.\<close>

fun rfind :: "char \<Rightarrow> string \<Rightarrow> nat option" where
  "rfind c [] = None"
| "rfind c (x # xs) =
     (case rfind c xs of
        Some i \<Rightarrow> Some (Suc i)
      | None \<Rightarrow> (if x = c then Some 0 else None))"

text \<open>
  \<open>PurePath.suffix\<close> and \<open>PurePath.stem\<close> of pathlib (Python up to 3.13), on the final
  component \<open>name\<close>:
  \<^verbatim>\<open>
  i = name.rfind('.')
  if 0 < i < len(name) - 1: return name[i:]     # stem: name[:i]
  else:                     return ''           # stem: name
  \<close>
\<close>

definition suffix_py :: "string \<Rightarrow> string" where
  "suffix_py name =
     (case rfind CHR ''.'' name of
        None \<Rightarrow> []
      | Some i \<Rightarrow> (if 0 < i \<and> i < length name - 1 then drop i name else []))"

definition stem_py :: "string \<Rightarrow> string" where
  "stem_py name =
     (case rfind CHR ''.'' name of
        None \<Rightarrow> name
      | Some i \<Rightarrow> (if 0 < i \<and> i < length name - 1 then take i name else name))"

text \<open>
  \<open>s.split(sep)\<close>: the pieces of \<open>s\<close> between the non-overlapping occurrences of
  \<open>sep\<close>, found from the left; \<open>acc\<close> holds the current piece, reversed. Python raises
  ValueError on an empty separator.
\<close>

function split_aux :: "string \<Rightarrow> string \<Rightarrow> string \<Rightarrow> string list" where
  "split_aux sep acc [] = [rev acc]"
| "split_aux sep acc (c # cs) =
     (if sep \<noteq> [] \<and> take (length sep) (c # cs) = sep
      then rev acc # split_aux sep [] (drop (length sep) (c # cs))
      else split_aux sep (c # acc) cs)"
  by pat_completeness auto
termination
  by (relation "measure (\<lambda>(sep, acc, s). length s)") (auto simp: neq_Nil_conv)

definition split_py :: "string \<Rightarrow> string \<Rightarrow> fault + string list" where
  "split_py s sep = (if sep = [] then Inl ValueError else Inr (split_aux sep [] s))"

text \<open>\<open>xs[0]\<close> raises IndexError on an empty sequence.\<close>

fun index0 :: "'a list \<Rightarrow> fault + 'a" where
  "index0 [] = Inl IndexError"
| "index0 (x # xs) = Inr x"

text \<open>
  \<open>s[-2:]\<close>: the slice starts at \<open>max (len s - 2) 0\<close> and never raises; the truncating
  subtraction of \<open>nat\<close> is that maximum.
\<close>

definition last2 :: "string \<Rightarrow> string" where
  "last2 s = drop (length s - 2) s"

text \<open>
  \<open>str.upper\<close> on one character, for ASCII characters (\<open>is_ascii\<close>): the letters a to z
  go to A to Z and every other ASCII character is kept. Beyond ASCII Python's \<open>upper\<close>
  follows the Unicode tables (and may give several characters), which this table does not
  model: a statement about the value of the uppercased character carries \<open>is_ascii\<close> as a
  premise.
\<close>

definition is_ascii :: "char \<Rightarrow> bool" where
  "is_ascii c \<longleftrightarrow> (of_char c :: nat) < 128"

definition upper_char :: "char \<Rightarrow> char" where
  "upper_char c =
     (case map_of (zip ''abcdefghijklmnopqrstuvwxyz'' ''ABCDEFGHIJKLMNOPQRSTUVWXYZ'') c of
        None \<Rightarrow> c
      | Some u \<Rightarrow> u)"

definition upper :: "string \<Rightarrow> string" where
  "upper s = map upper_char s"

subsection \<open>The file system and the process state\<close>

text \<open>
  A directory holds its entries in the order \<open>iterdir\<close> yields them. Names in one
  listing are distinct, non-empty, and never "." or ".." (see \<open>listing_ok\<close>).
\<close>

datatype node = File | Dir "(string \<times> node) list"

fun is_dir :: "node \<Rightarrow> bool" where
  "is_dir (Dir es) = True"
| "is_dir File = False"

definition listing_ok :: "(string \<times> node) list \<Rightarrow> bool" where
  "listing_ok es \<longleftrightarrow>
     distinct (map fst es) \<and> list_all (\<lambda>n. n \<noteq> [] \<and> n \<noteq> ''.'' \<and> n \<noteq> ''..'') (map fst es)"

text \<open>
  The state a run can read or change: what \<open>data_path\<close> denotes (\<open>None\<close>: nothing
  there), what \<open>data_path / ".."\<close> denotes, and the lines written to standard output.
\<close>

record world =
  data_dir :: "node option"
  parent_dir :: "node option"
  stdout :: "string list"

definition print :: "string \<Rightarrow> world \<Rightarrow> world" where
  "print line w = w\<lparr>stdout := stdout w @ [line]\<rparr>"

text \<open>\<open>p.iterdir()\<close> on what the path \<open>p\<close> denotes.\<close>

definition iterdir :: "node option \<Rightarrow> fault + (string \<times> node) list" where
  "iterdir p =
     (case p of
        None \<Rightarrow> Inl FileNotFoundError
      | Some File \<Rightarrow> Inl NotADirectoryError
      | Some (Dir es) \<Rightarrow> Inr es)"

text \<open>
  \<open>data_path / molecule\<close>: pathlib drops an empty or "." segment, ".." is left to the
  file system, any other name is looked up in the listing of \<open>data_path\<close>.
\<close>

definition child :: "world \<Rightarrow> string \<Rightarrow> node option" where
  "child w molecule =
     (if molecule = [] \<or> molecule = ''.'' then data_dir w
      else if molecule = ''..'' then parent_dir w
      else (case data_dir w of
              Some (Dir es) \<Rightarrow> map_of es molecule
            | _ \<Rightarrow> None))"

subsection \<open>The script\<close>

text \<open>
  \<^verbatim>\<open>
  molecules = [
      x.stem for x in data_path.iterdir() if x.is_dir() and x.name != "Energy Calibration"
  ]
  \<close>
\<close>

definition molecules :: "(string \<times> node) list \<Rightarrow> string list" where
  "molecules es =
     map (\<lambda>(name, x). stem_py name)
       (filter (\<lambda>(name, x). is_dir x \<and> name \<noteq> ''Energy Calibration'') es)"

text \<open>\<open>_edge = edge.stem[0].upper() + "-K"\<close>\<close>

definition edge_label :: "string \<Rightarrow> fault + string" where
  "edge_label name =
     (case index0 (stem_py name) of
        Inl e \<Rightarrow> Inl e
      | Inr c \<Rightarrow> Inr (upper [c] @ ''-K''))"

text \<open>\<open>anlge = file.stem.split("deg")[0][-2:]\<close>\<close>

definition anlge :: "string \<Rightarrow> fault + string" where
  "anlge name =
     (case split_py (stem_py name) ''deg'' of
        Inl e \<Rightarrow> Inl e
      | Inr pieces \<Rightarrow>
          (case index0 pieces of
             Inl e \<Rightarrow> Inl e
           | Inr piece \<Rightarrow> Inr (last2 piece)))"

text \<open>\<open>f"Loading data for {molecule} at the {_edge} at {anlge} degrees"\<close>\<close>

definition message :: "string \<Rightarrow> string \<Rightarrow> string \<Rightarrow> string" where
  "message molecule edge_lbl angle =
     ''Loading data for '' @ molecule @ '' at the '' @ edge_lbl @ '' at '' @ angle @ '' degrees''"

text \<open>
  \<^verbatim>\<open>
  for file in edge.iterdir():
      if file.suffix == ".txt":
          anlge = file.stem.split("deg")[0][-2:]
          print(f"Loading data for {molecule} at the {_edge} at {anlge} degrees")
  \<close>
  A fault ends the run; what was printed before it stays printed.
\<close>

fun file_loop :: "string \<Rightarrow> string \<Rightarrow> (string \<times> node) list \<Rightarrow> world \<Rightarrow> fault option \<times> world" where
  "file_loop molecule edge_lbl [] w = (None, w)"
| "file_loop molecule edge_lbl ((name, x) # files) w =
     (if suffix_py name = ''.txt'' then
        (case anlge name of
           Inl e \<Rightarrow> (Some e, w)
         | Inr a \<Rightarrow> file_loop molecule edge_lbl files (print (message molecule edge_lbl a) w))
      else file_loop molecule edge_lbl files w)"

text \<open>
  \<^verbatim>\<open>
  for edge in (data_path / molecule).iterdir():
      if edge.is_dir():
          _edge = edge.stem[0].upper() + "-K"
          for file in edge.iterdir(): ...
          break
  \<close>
  The \<open>break\<close> is the last statement of the \<open>if\<close> body: the loop ends after the first
  directory-typed entry.
\<close>

fun edge_loop :: "string \<Rightarrow> (string \<times> node) list \<Rightarrow> world \<Rightarrow> fault option \<times> world" where
  "edge_loop molecule [] w = (None, w)"
| "edge_loop molecule ((name, x) # edges) w =
     (if is_dir x then
        (case edge_label name of
           Inl e \<Rightarrow> (Some e, w)
         | Inr edge_lbl \<Rightarrow>
             (case iterdir (Some x) of
                Inl e \<Rightarrow> (Some e, w)
              | Inr files \<Rightarrow> file_loop molecule edge_lbl files w))
      else edge_loop molecule edges w)"

text \<open>\<open>for molecule in molecules: ...\<close>\<close>

fun molecule_loop :: "string list \<Rightarrow> world \<Rightarrow> fault option \<times> world" where
  "molecule_loop [] w = (None, w)"
| "molecule_loop (molecule # ms) w =
     (case iterdir (child w molecule) of
        Inl e \<Rightarrow> (Some e, w)
      | Inr edges \<Rightarrow>
          (case edge_loop molecule edges w of
             (Some e, w') \<Rightarrow> (Some e, w')
           | (None, w') \<Rightarrow> molecule_loop ms w'))"

text \<open>The whole module: the fault that ended the run, if any, and the final state.\<close>

definition run :: "world \<Rightarrow> fault option \<times> world" where
  "run w =
     (case iterdir (data_dir w) of
        Inl e \<Rightarrow> (Some e, w)
      | Inr es \<Rightarrow> molecule_loop (molecules es) w)"

subsection \<open>The portion of a string before the first occurrence of a separator\<close>

text \<open>
  The specification's description of the angle: the portion of the stem that precedes
  the first occurrence of "deg" (the whole stem when "deg" does not occur), cut to its
  last two characters. \<open>occurs_at sep s i\<close>: \<open>sep\<close> is found in \<open>s\<close> at index \<open>i\<close>;
  \<open>first_occurrence\<close>: the lowest such index.
\<close>

definition occurs_at :: "string \<Rightarrow> string \<Rightarrow> nat \<Rightarrow> bool" where
  "occurs_at sep s i \<longleftrightarrow> take (length sep) (drop i s) = sep"

definition first_occurrence :: "string \<Rightarrow> string \<Rightarrow> nat option" where
  "first_occurrence sep s = List.find (occurs_at sep s) [0..<Suc (length s)]"

definition before_first :: "string \<Rightarrow> string \<Rightarrow> string" where
  "before_first sep s = (case first_occurrence sep s of None \<Rightarrow> s | Some i \<Rightarrow> take i s)"

definition angle_of :: "string \<Rightarrow> string" where
  "angle_of name = last2 (before_first ''deg'' (stem_py name))"

text \<open>
  The specification's "uppercased", on an ASCII character and independent of the table in
  \<open>upper_char\<close>: a lower-case letter (codes 97 to 122) becomes the character 32 codes
  below it, any other character stays as it is.
\<close>

definition uppercased :: "char \<Rightarrow> char" where
  "uppercased c =
     (if (97::nat) \<le> of_char c \<and> (of_char c :: nat) \<le> 122
      then char_of (of_char c - (32::nat))
      else c)"

section \<open>Properties of the string operations and of the loops\<close>

lemma find_map_option: "List.find P (map f xs) = map_option f (List.find (P \<circ> f) xs)"
  by (induction xs) simp_all

lemma occurs_at_Suc: "occurs_at sep (c # cs) (Suc i) = occurs_at sep cs i"
  by (simp add: occurs_at_def)

lemma first_occurrence_Cons:
  "first_occurrence sep (c # cs) =
     (if occurs_at sep (c # cs) 0 then Some 0 else map_option Suc (first_occurrence sep cs))"
proof -
  have "[0..<Suc (length (c # cs))] = 0 # map Suc [0..<Suc (length cs)]"
    by (simp add: upt_conv_Cons map_Suc_upt del: upt_Suc)
  moreover have "occurs_at sep (c # cs) \<circ> Suc = occurs_at sep cs"
    by (rule ext) (simp add: occurs_at_Suc)
  ultimately show ?thesis
    by (simp add: first_occurrence_def find_map_option del: upt_Suc)
qed

lemma before_first_Cons:
  "before_first sep (c # cs) =
     (if occurs_at sep (c # cs) 0 then [] else c # before_first sep cs)"
  by (simp add: before_first_def first_occurrence_Cons split: option.splits)

lemma split_aux_head:
  "sep \<noteq> [] \<Longrightarrow> \<exists>rest. split_aux sep acc s = (rev acc @ before_first sep s) # rest"
proof (induction s arbitrary: acc)
  case Nil
  then show ?case
    by (simp add: before_first_def first_occurrence_def occurs_at_def)
next
  case (Cons c cs)
  show ?case
  proof (cases "occurs_at sep (c # cs) 0")
    case True
    with Cons.prems show ?thesis
      by (simp add: before_first_Cons occurs_at_def)
  next
    case False
    from Cons.IH [OF Cons.prems, of "c # acc"] obtain rest
      where "split_aux sep (c # acc) cs = (rev (c # acc) @ before_first sep cs) # rest" ..
    with False show ?thesis
      by (simp add: before_first_Cons occurs_at_def)
  qed
qed

lemma anlge_eq: "anlge name = Inr (angle_of name)"
proof -
  obtain rest where "split_aux ''deg'' [] (stem_py name) = before_first ''deg'' (stem_py name) # rest"
    using split_aux_head [of "''deg''" "[]" "stem_py name"] by auto
  then show ?thesis
    by (simp add: anlge_def split_py_def angle_of_def)
qed

lemma upper_char_uppercased: "upper_char c = uppercased c"
  by (cases c) (simp add: upper_char_def uppercased_def char_of_def bit_0)

lemma stem_py_Cons: "\<exists>rest. stem_py (c # cs) = c # rest"
  by (cases "rfind CHR ''.'' (c # cs)") (auto simp: stem_py_def take_Cons' simp del: rfind.simps)

lemma edge_label_Cons: "edge_label (c # cs) = Inr (upper_char c # ''-K'')"
proof -
  obtain rest where "stem_py (c # cs) = c # rest"
    using stem_py_Cons by blast
  then show ?thesis
    by (simp add: edge_label_def upper_def)
qed

lemma file_loop_eq:
  "file_loop molecule e files w =
     (None, w\<lparr>stdout := stdout w @
        map (\<lambda>(name, x). message molecule e (angle_of name))
          (filter (\<lambda>(name, x). suffix_py name = ''.txt'') files)\<rparr>)"
  by (induction files arbitrary: w) (auto simp: anlge_eq print_def)

lemma edge_loop_skip:
  "list_all (\<lambda>(name, x). \<not> is_dir x) pre \<Longrightarrow>
   edge_loop molecule (pre @ edges) w = edge_loop molecule edges w"
  by (induction pre) auto

lemma edge_loop_first:
  "list_all (\<lambda>(name, x). \<not> is_dir x) pre \<Longrightarrow>
   edge_loop molecule (pre @ (c # cs, Dir files) # rest) w =
     file_loop molecule (upper_char c # ''-K'') files w"
  by (simp add: edge_loop_skip edge_label_Cons iterdir_def)

lemma frame_refl: "\<exists>lines. (w::world) = w\<lparr>stdout := stdout w @ lines\<rparr>"
  by (rule exI [of _ "[]"]) simp

lemma edge_loop_frame:
  "\<exists>lines. snd (edge_loop molecule edges w) = w\<lparr>stdout := stdout w @ lines\<rparr>"
proof (induction edges)
  case Nil
  then show ?case by (simp add: frame_refl)
next
  case (Cons a edges)
  obtain name x where a: "a = (name, x)" by (cases a)
  show ?case
  proof (cases x)
    case File
    with a Cons show ?thesis by simp
  next
    case (Dir files)
    show ?thesis
    proof (cases "edge_label name")
      case (Inl e)
      with a Dir show ?thesis by (simp add: frame_refl)
    next
      case (Inr l)
      with a Dir show ?thesis
        by (auto simp: iterdir_def file_loop_eq)
    qed
  qed
qed

lemma molecule_loop_frame:
  "\<exists>lines. snd (molecule_loop ms w) = w\<lparr>stdout := stdout w @ lines\<rparr>"
proof (induction ms arbitrary: w)
  case Nil
  then show ?case by (simp add: frame_refl)
next
  case (Cons m ms)
  show ?case
  proof (cases "iterdir (child w m)")
    case (Inl e)
    then show ?thesis by (simp add: frame_refl)
  next
    case (Inr edges)
    obtain r w' where el: "edge_loop m edges w = (r, w')"
      by (cases "edge_loop m edges w")
    obtain l1 where w': "w' = w\<lparr>stdout := stdout w @ l1\<rparr>"
      using edge_loop_frame [of m edges w] el by auto
    show ?thesis
    proof (cases r)
      case None
      obtain l2 where "snd (molecule_loop ms w') = w'\<lparr>stdout := stdout w' @ l2\<rparr>"
        using Cons.IH [of w'] by blast
      with Inr el None w' have "snd (molecule_loop (m # ms) w) = w\<lparr>stdout := stdout w @ (l1 @ l2)\<rparr>"
        by simp
      then show ?thesis by blast
    next
      case (Some e)
      with Inr el w' show ?thesis by auto
    qed
  qed
qed

lemma molecule_loop_append:
  "molecule_loop (ms1 @ ms2) w =
     (case molecule_loop ms1 w of
        (Some e, w') \<Rightarrow> (Some e, w')
      | (None, w') \<Rightarrow> molecule_loop ms2 w')"
  by (induction ms1 arbitrary: w) (auto split: sum.splits option.splits prod.splits)

lemma molecules_append: "molecules (es1 @ es2) = molecules es1 @ molecules es2"
  by (simp add: molecules_def)

lemma molecule_loop_stdout_mono:
  "line \<in> set (stdout w) \<Longrightarrow> line \<in> set (stdout (snd (molecule_loop ms w)))"
proof -
  assume l: "line \<in> set (stdout w)"
  obtain lines where "snd (molecule_loop ms w) = w\<lparr>stdout := stdout w @ lines\<rparr>"
    using molecule_loop_frame by blast
  with l show ?thesis by simp
qed

lemma angle_of_45deg_scan: "angle_of ''45deg_scan.txt'' = ''45''"
  by (simp add: angle_of_def stem_py_def before_first_def first_occurrence_def occurs_at_def
      last2_def upt_rec)

lemma suffix_45deg_scan: "suffix_py ''45deg_scan.txt'' = ''.txt''"
  by (simp add: suffix_py_def)

lemma first_occurrence_short: "length s < length sep \<Longrightarrow> first_occurrence sep s = None"
proof -
  assume short: "length s < length sep"
  have "\<not> occurs_at sep s i" for i
  proof
    assume "occurs_at sep s i"
    then have "length (take (length sep) (drop i s)) = length sep"
      by (simp add: occurs_at_def)
    with short show False by simp
  qed
  then show ?thesis
    by (simp add: first_occurrence_def find_None_iff del: upt_Suc)
qed

section \<open>The claims\<close>

text \<open>
  C1. For every molecule directory at most one edge sub-directory is processed: the
  entries yielded before the first directory-typed one are skipped, that first directory
  has its files listed and its lines printed, and the loop ends there, so whatever is
  yielded after it (\<open>rest\<close>) contributes nothing to the result.
\<close>

theorem edge_loop_first_directory_only:
  assumes "list_all (\<lambda>(name, x). \<not> is_dir x) pre"
  shows "edge_loop molecule (pre @ (c # cs, Dir files) # rest) w =
           file_loop molecule (upper_char c # ''-K'') files w"
  using assms by (rule edge_loop_first)

theorem edge_loop_first_directory_only_witness:
  "list_all (\<lambda>(name, x). \<not> is_dir x) [(''readme.md'', File)] \<and>
   edge_loop ''PS''
     ([(''readme.md'', File)] @ (''carbon'', Dir [(''45deg_scan.txt'', File)])
        # [(''nitrogen'', Dir [(''20deg.txt'', File)])])
     \<lparr>data_dir = None, parent_dir = None, stdout = []\<rparr> =
     (None, \<lparr>data_dir = None, parent_dir = None,
             stdout = [''Loading data for PS at the C-K at 45 degrees'']\<rparr>)"
proof -
  have h: "list_all (\<lambda>(name, x). \<not> is_dir x) [(''readme.md'', File)]"
    by simp
  show ?thesis
    using h edge_loop_first_directory_only [OF h, of "''PS''" "CHR ''c''" "''arbon''"
        "[(''45deg_scan.txt'', File)]" "[(''nitrogen'', Dir [(''20deg.txt'', File)])]"
        "\<lparr>data_dir = None, parent_dir = None, stdout = []\<rparr>"]
    by (simp add: upper_char_def suffix_py_def anlge_def stem_py_def split_py_def
        last2_def print_def message_def)
qed

text \<open>
  C4. For every entry of the processed edge directory whose suffix is ".txt", the angle
  computed by the script is the last two characters of the portion of the stem before
  the first occurrence of "deg" (the whole stem when "deg" does not occur), and that is
  the angle in the line printed for the entry.
\<close>

theorem angle_is_tail_of_portion_before_deg:
  "anlge name = Inr (last2 (before_first ''deg'' (stem_py name))) \<and>
   (suffix_py name = ''.txt'' \<longrightarrow>
      file_loop molecule e ((name, x) # files) w =
        file_loop molecule e files
          (print (message molecule e (last2 (before_first ''deg'' (stem_py name)))) w))"
  using anlge_eq [of name] by (simp add: angle_of_def)

theorem angle_is_tail_of_portion_before_deg_witness:
  "anlge ''sample_30deg_run2deg.txt'' = Inr ''30'' \<and>
   suffix_py ''sample_30deg_run2deg.txt'' = ''.txt'' \<and>
   file_loop ''PS'' ''C-K'' [(''sample_30deg_run2deg.txt'', File)]
       \<lparr>data_dir = None, parent_dir = None, stdout = []\<rparr> =
     (None, \<lparr>data_dir = None, parent_dir = None,
             stdout = [''Loading data for PS at the C-K at 30 degrees'']\<rparr>)"
  using angle_is_tail_of_portion_before_deg [of "''sample_30deg_run2deg.txt''" "''PS''" "''C-K''"
      File "[]" "\<lparr>data_dir = None, parent_dir = None, stdout = []\<rparr>"]
  by (simp add: suffix_py_def stem_py_def before_first_def first_occurrence_def occurs_at_def
      last2_def print_def message_def upt_rec)

text \<open>
  C2, as stated, fails: a molecule directory that holds "carbon" with "45deg_scan.txt"
  gets no line when another directory is yielded before "carbon".
\<close>

theorem carbon_not_first_edge_counterexample:
  "''Loading data for PS at the C-K at 45 degrees'' \<notin>
     set (stdout (snd (run \<lparr>data_dir = Some (Dir [(''PS'', Dir [(''boron'', Dir []),
                                                           (''carbon'', Dir [(''45deg_scan.txt'', File)])])]),
                             parent_dir = None, stdout = []\<rparr>)))"
  by (simp add: run_def iterdir_def molecules_def stem_py_def child_def edge_label_def upper_def
      upper_char_def)

text \<open>
  C2, amended. For a molecule directory whose name has no suffix and is not
  "Energy Calibration", reached by the run without an earlier fault, and whose first
  directory-typed entry is "carbon" holding "45deg_scan.txt", the output contains
  "Loading data for <molecule> at the C-K at 45 degrees".
\<close>

theorem carbon_45_line_printed:
  assumes dd: "data_dir w = Some (Dir (es1 @ (m, Dir edges) # es2))"
    and ok: "listing_ok (es1 @ (m, Dir edges) # es2)"
    and stem: "stem_py m = m"
    and notcal: "m \<noteq> ''Energy Calibration''"
    and before: "fst (molecule_loop (molecules es1) w) = None"
    and edges: "edges = pre @ (''carbon'', Dir files) # rest"
    and pre: "list_all (\<lambda>(name, x). \<not> is_dir x) pre"
    and infile: "(''45deg_scan.txt'', x) \<in> set files"
  shows "''Loading data for '' @ m @ '' at the C-K at 45 degrees'' \<in> set (stdout (snd (run w)))"
proof -
  let ?line = "''Loading data for '' @ m @ '' at the C-K at 45 degrees''"
  let ?es = "es1 @ (m, Dir edges) # es2"
  have run: "run w = molecule_loop (molecules es1 @ m # molecules es2) w"
    using dd stem notcal
    by (simp add: run_def iterdir_def molecules_append) (simp add: molecules_def)
  obtain w1 where w1: "molecule_loop (molecules es1) w = (None, w1)"
    using before by (cases "molecule_loop (molecules es1) w") simp
  obtain l1 where l1: "w1 = w\<lparr>stdout := stdout w @ l1\<rparr>"
    using molecule_loop_frame [of "molecules es1" w] w1 by auto
  have m: "m \<noteq> [] \<and> m \<noteq> ''.'' \<and> m \<noteq> ''..''"
    using ok by (simp add: listing_ok_def)
  have "map_of ?es m = Some (Dir edges)"
    using ok by (intro map_of_is_SomeI) (simp_all add: listing_ok_def)
  then have child: "child w1 m = Some (Dir edges)"
    using dd m l1 by (simp add: child_def)
  have el: "edge_loop m edges w1 = file_loop m ''C-K'' files w1"
    unfolding edges using edge_loop_first [OF pre, of m "CHR ''c''" "''arbon''" files rest w1]
    by (simp add: upper_char_def)
  define w2 where "w2 = snd (file_loop m ''C-K'' files w1)"
  have fl: "file_loop m ''C-K'' files w1 = (None, w2)"
    by (simp add: w2_def file_loop_eq)
  have "message m ''C-K'' (angle_of ''45deg_scan.txt'') \<in>
          set (map (\<lambda>(name, x). message m ''C-K'' (angle_of name))
                 (filter (\<lambda>(name, x). suffix_py name = ''.txt'') files))"
    using infile suffix_45deg_scan by force
  then have "?line \<in> set (stdout w2)"
    by (simp add: w2_def file_loop_eq angle_of_45deg_scan message_def)
  then have "?line \<in> set (stdout (snd (molecule_loop (molecules es2) w2)))"
    by (rule molecule_loop_stdout_mono)
  moreover have "run w = molecule_loop (molecules es2) w2"
    using run w1 child el fl by (simp add: molecule_loop_append iterdir_def)
  ultimately show ?thesis by simp
qed

theorem carbon_45_line_printed_witness:
  "''Loading data for PS at the C-K at 45 degrees'' \<in>
     set (stdout (snd (run \<lparr>data_dir = Some (Dir [(''P3HT'', Dir [(''sulfur'', Dir [(''20deg.txt'', File)])]),
                                             (''PS'', Dir [(''notes.md'', File),
                                                           (''carbon'', Dir [(''45deg_scan.txt'', File)]),
                                                           (''oxygen'', Dir [])]),
                                             (''N2200'', Dir [])]),
                             parent_dir = None, stdout = []\<rparr>)))"
proof -
  let ?w = "\<lparr>data_dir = Some (Dir [(''P3HT'', Dir [(''sulfur'', Dir [(''20deg.txt'', File)])]),
                                             (''PS'', Dir [(''notes.md'', File),
                                                           (''carbon'', Dir [(''45deg_scan.txt'', File)]),
                                                           (''oxygen'', Dir [])]),
                                             (''N2200'', Dir [])]),
                             parent_dir = None, stdout = []\<rparr>"
  have "''Loading data for '' @ ''PS'' @ '' at the C-K at 45 degrees'' \<in> set (stdout (snd (run ?w)))"
  proof (rule carbon_45_line_printed [where ?es1.0 = "[(''P3HT'', Dir [(''sulfur'', Dir [(''20deg.txt'', File)])])]"
        and ?es2.0 = "[(''N2200'', Dir [])]" and pre = "[(''notes.md'', File)]"
        and rest = "[(''oxygen'', Dir [])]" and files = "[(''45deg_scan.txt'', File)]" and x = File
        and edges = "[(''notes.md'', File), (''carbon'', Dir [(''45deg_scan.txt'', File)]), (''oxygen'', Dir [])]"])
    show "data_dir ?w = Some (Dir ([(''P3HT'', Dir [(''sulfur'', Dir [(''20deg.txt'', File)])])] @
        (''PS'', Dir [(''notes.md'', File), (''carbon'', Dir [(''45deg_scan.txt'', File)]), (''oxygen'', Dir [])]) # [(''N2200'', Dir [])]))"
      by simp
    show "listing_ok ([(''P3HT'', Dir [(''sulfur'', Dir [(''20deg.txt'', File)])])] @
        (''PS'', Dir [(''notes.md'', File), (''carbon'', Dir [(''45deg_scan.txt'', File)]), (''oxygen'', Dir [])]) # [(''N2200'', Dir [])])"
      by (simp add: listing_ok_def)
    show "stem_py ''PS'' = ''PS''" by (simp add: stem_py_def)
    show "''PS'' \<noteq> ''Energy Calibration''" by simp
    show "fst (molecule_loop (molecules [(''P3HT'', Dir [(''sulfur'', Dir [(''20deg.txt'', File)])])]) ?w) = None"
      by (simp add: molecules_def stem_py_def child_def iterdir_def edge_label_def upper_def
          upper_char_def file_loop_eq)
    show "[(''notes.md'', File), (''carbon'', Dir [(''45deg_scan.txt'', File)]), (''oxygen'', Dir [])] =
        [(''notes.md'', File)] @ (''carbon'', Dir [(''45deg_scan.txt'', File)]) # [(''oxygen'', Dir [])]"
      by simp
    show "list_all (\<lambda>(name, x). \<not> is_dir x) [(''notes.md'', File)]" by simp
    show "(''45deg_scan.txt'', File) \<in> set [(''45deg_scan.txt'', File)]" by simp
  qed
  then show ?thesis by simp
qed

text \<open>
  C3, as stated, fails: with a ".txt" file whose stem has no "deg" ("scan") and one whose
  stem has a single character ("5"), the run ends without a fault and prints a line for
  each.
\<close>

theorem malformed_stem_no_fault_counterexample:
  "run \<lparr>data_dir = Some (Dir [(''PS'', Dir [(''carbon'', Dir [(''scan.txt'', File), (''5.txt'', File)])])]),
        parent_dir = None, stdout = []\<rparr> =
     (None,
      \<lparr>data_dir = Some (Dir [(''PS'', Dir [(''carbon'', Dir [(''scan.txt'', File), (''5.txt'', File)])])]),
        parent_dir = None,
        stdout = [''Loading data for PS at the C-K at an degrees'',
                  ''Loading data for PS at the C-K at 5 degrees'']\<rparr>)"
  by (simp add: run_def iterdir_def molecules_def stem_py_def suffix_py_def child_def edge_label_def
      upper_def upper_char_def anlge_def split_py_def last2_def print_def message_def)

text \<open>
  C3, amended. No file name makes the file loop raise, and no ".txt" entry is skipped:
  \<open>split\<close> always returns at least one piece and the slice \<open>[-2:]\<close> accepts any length.
  When "deg" does not occur in the stem the angle is the last two characters of the whole
  stem, when the stem is shorter than two characters the angle is the whole stem, and in
  both cases the line with that angle is printed before the loop goes on to the next
  entry.
\<close>

theorem malformed_stem_raises_nothing:
  "fst (file_loop molecule e files w) = None \<and>
   (first_occurrence ''deg'' (stem_py name) = None \<longrightarrow> anlge name = Inr (last2 (stem_py name))) \<and>
   (length (stem_py name) < 2 \<longrightarrow> anlge name = Inr (stem_py name)) \<and>
   (suffix_py name = ''.txt'' \<and> first_occurrence ''deg'' (stem_py name) = None \<longrightarrow>
      file_loop molecule e ((name, x) # files) w =
        file_loop molecule e files (print (message molecule e (last2 (stem_py name))) w)) \<and>
   (suffix_py name = ''.txt'' \<and> length (stem_py name) < 2 \<longrightarrow>
      file_loop molecule e ((name, x) # files) w =
        file_loop molecule e files (print (message molecule e (stem_py name)) w))"
proof -
  have nodeg: "anlge name = Inr (last2 (stem_py name))"
    if "first_occurrence ''deg'' (stem_py name) = None"
    using that by (simp add: anlge_eq angle_of_def before_first_def)
  have short: "anlge name = Inr (stem_py name)" if "length (stem_py name) < 2"
  proof -
    from that have "first_occurrence ''deg'' (stem_py name) = None"
      by (intro first_occurrence_short) simp
    with that show ?thesis
      by (simp add: anlge_eq angle_of_def before_first_def last2_def)
  qed
  have "fst (file_loop molecule e files w) = None"
    by (simp add: file_loop_eq)
  moreover have "file_loop molecule e ((name, x) # files) w =
        file_loop molecule e files (print (message molecule e (last2 (stem_py name))) w)"
    if "suffix_py name = ''.txt''" "first_occurrence ''deg'' (stem_py name) = None"
    using that nodeg by simp
  moreover have "file_loop molecule e ((name, x) # files) w =
        file_loop molecule e files (print (message molecule e (stem_py name)) w)"
    if "suffix_py name = ''.txt''" "length (stem_py name) < 2"
    using that short by simp
  ultimately show ?thesis
    using nodeg short by blast
qed

theorem malformed_stem_raises_nothing_witness:
  "suffix_py ''scan.txt'' = ''.txt'' \<and>
   first_occurrence ''deg'' (stem_py ''scan.txt'') = None \<and>
   anlge ''scan.txt'' = Inr ''an'' \<and>
   file_loop ''PS'' ''C-K'' [(''scan.txt'', File)]
       \<lparr>data_dir = None, parent_dir = None, stdout = []\<rparr> =
     (None, \<lparr>data_dir = None, parent_dir = None,
             stdout = [''Loading data for PS at the C-K at an degrees'']\<rparr>) \<and>
   suffix_py ''5.txt'' = ''.txt'' \<and>
   length (stem_py ''5.txt'') < 2 \<and>
   anlge ''5.txt'' = Inr ''5'' \<and>
   file_loop ''PS'' ''C-K'' [(''5.txt'', File)]
       \<lparr>data_dir = None, parent_dir = None, stdout = []\<rparr> =
     (None, \<lparr>data_dir = None, parent_dir = None,
             stdout = [''Loading data for PS at the C-K at 5 degrees'']\<rparr>)"
proof -
  let ?w = "\<lparr>data_dir = None, parent_dir = None, stdout = []\<rparr>"
  have s: "suffix_py ''scan.txt'' = ''.txt''" "suffix_py ''5.txt'' = ''.txt''"
    by code_simp+
  have st: "stem_py ''scan.txt'' = ''scan''" "stem_py ''5.txt'' = ''5''"
    by code_simp+
  have f: "first_occurrence ''deg'' ''scan'' = None"
    by code_simp
  have l: "last2 ''scan'' = ''an''"
    by code_simp
  note t1 = malformed_stem_raises_nothing [of "''PS''" "''C-K''" "[]" ?w "''scan.txt''" File]
  note t2 = malformed_stem_raises_nothing [of "''PS''" "''C-K''" "[]" ?w "''5.txt''" File]
  have a1: "anlge ''scan.txt'' = Inr ''an''"
    using t1 by (simp only: s st f l simp_thms)
  have p1: "file_loop ''PS'' ''C-K'' [(''scan.txt'', File)] ?w =
      file_loop ''PS'' ''C-K'' [] (print (message ''PS'' ''C-K'' ''an'') ?w)"
    using t1 by (simp only: s st f l simp_thms)
  have a2: "anlge ''5.txt'' = Inr ''5''"
    using t2 by (simp add: st)
  have p2: "file_loop ''PS'' ''C-K'' [(''5.txt'', File)] ?w =
      file_loop ''PS'' ''C-K'' [] (print (message ''PS'' ''C-K'' ''5'') ?w)"
    using t2 by (simp add: s st del: file_loop.simps)
  show ?thesis
    unfolding p1 p2 a1 a2 by (simp add: s st f print_def message_def)
qed

text \<open>
  C5. For a processed edge sub-directory with a non-empty name \<open>c # cs\<close> whose first
  character is ASCII, the edge label is that first character uppercased (a to z become
  A to Z, anything else is kept) followed by "-K", and every line printed for that edge
  carries this label.
\<close>

theorem edge_label_first_char_upper:
  assumes "is_ascii c"
  shows "edge_label (c # cs) = Inr (uppercased c # ''-K'') \<and>
   edge_loop molecule [(c # cs, Dir files)] w =
     (None, w\<lparr>stdout := stdout w @
        map (\<lambda>(name, x). message molecule (uppercased c # ''-K'') (angle_of name))
          (filter (\<lambda>(name, x). suffix_py name = ''.txt'') files)\<rparr>)"
  by (simp add: edge_label_Cons iterdir_def file_loop_eq upper_char_uppercased)

theorem edge_label_first_char_upper_witness:
  "is_ascii CHR ''c'' \<and> edge_label ''carbon'' = Inr ''C-K'' \<and>
   is_ascii CHR ''n'' \<and> edge_label ''nitrogen'' = Inr ''N-K'' \<and>
   is_ascii CHR ''z'' \<and> edge_label ''zinc.old'' = Inr ''Z-K'' \<and>
   is_ascii CHR ''a'' \<and> edge_label ''aluminium'' = Inr ''A-K'' \<and>
   is_ascii CHR ''O'' \<and> edge_label ''Oxygen'' = Inr ''O-K'' \<and>
   is_ascii CHR ''1'' \<and> edge_label ''1s'' = Inr ''1-K'' \<and>
   is_ascii CHR ''{'' \<and> edge_label ''{tmp}'' = Inr ''{-K'' \<and>
   edge_loop ''PS'' [(''nitrogen'', Dir [(''45deg_scan.txt'', File), (''20deg.txt'', File)])]
       \<lparr>data_dir = None, parent_dir = None, stdout = []\<rparr> =
     (None, \<lparr>data_dir = None, parent_dir = None,
             stdout = [''Loading data for PS at the N-K at 45 degrees'',
                       ''Loading data for PS at the N-K at 20 degrees'']\<rparr>)"
proof -
  have i: "is_ascii CHR ''c''" "is_ascii CHR ''n''" "is_ascii CHR ''z''" "is_ascii CHR ''a''"
    "is_ascii CHR ''O''" "is_ascii CHR ''1''" "is_ascii CHR ''{''"
    by code_simp+
  have u: "uppercased CHR ''c'' = CHR ''C''" "uppercased CHR ''n'' = CHR ''N''"
    "uppercased CHR ''z'' = CHR ''Z''" "uppercased CHR ''a'' = CHR ''A''"
    "uppercased CHR ''O'' = CHR ''O''" "uppercased CHR ''1'' = CHR ''1''"
    "uppercased CHR ''{'' = CHR ''{''"
    by code_simp+
  have a: "angle_of ''45deg_scan.txt'' = ''45''" "angle_of ''20deg.txt'' = ''20''"
    by code_simp+
  have s: "suffix_py ''45deg_scan.txt'' = ''.txt''" "suffix_py ''20deg.txt'' = ''.txt''"
    by code_simp+
  note t = edge_label_first_char_upper [THEN conjunct1]
  note n = edge_label_first_char_upper [OF i(2), of "''itrogen''" "''PS''"
        "[(''45deg_scan.txt'', File), (''20deg.txt'', File)]"
        "\<lparr>data_dir = None, parent_dir = None, stdout = []\<rparr>", THEN conjunct2]
  show ?thesis
    unfolding t [OF i(1)] t [OF i(2)] t [OF i(3)] t [OF i(4)] t [OF i(5)] t [OF i(6)] t [OF i(7)] n
    by (simp add: i u a s message_def)
qed

text \<open>
  C6 (a directory named exactly "Energy Calibration" yields no output line, for itself or
  for anything under it) does not hold of the script: the filter compares \<open>x.name\<close>, but
  the molecule kept is \<open>x.stem\<close> and the path is rebuilt from it. Beside a sibling
  directory "Energy Calibration.bak", whose stem is "Energy Calibration", the script lists
  \<open>data_path / "Energy Calibration"\<close> and prints a line for the file under it.
\<close>

theorem energy_calibration_printed_via_sibling_stem:
  "run \<lparr>data_dir = Some (Dir [(''Energy Calibration'', Dir [(''carbon'', Dir [(''45deg.txt'', File)])]),
                              (''Energy Calibration.bak'', Dir [])]),
        parent_dir = None, stdout = []\<rparr> =
     (None,
      \<lparr>data_dir = Some (Dir [(''Energy Calibration'', Dir [(''carbon'', Dir [(''45deg.txt'', File)])]),
                              (''Energy Calibration.bak'', Dir [])]),
        parent_dir = None,
        stdout = [''Loading data for Energy Calibration at the C-K at 45 degrees'']\<rparr>)"
  by (simp add: run_def iterdir_def molecules_def stem_py_def suffix_py_def child_def edge_label_def
      upper_def upper_char_def anlge_def split_py_def last2_def print_def message_def)

text \<open>
  C7. Within the processed edge directory exactly the entries whose suffix is ".txt"
  produce an output line, one each and in listing order; an entry with any other suffix,
  or with none, produces no line.
\<close>

theorem only_txt_entries_print:
  "file_loop molecule e files w =
     (None, w\<lparr>stdout := stdout w @
        map (\<lambda>(name, x). message molecule e (angle_of name))
          (filter (\<lambda>(name, x). suffix_py name = ''.txt'') files)\<rparr>)"
  by (rule file_loop_eq)

theorem only_txt_entries_print_witness:
  "file_loop ''PS'' ''C-K''
     [(''45deg.txt'', File), (''45deg.csv'', File), (''README'', File), (''20deg.TXT'', File),
      (''.txt'', File), (''30deg.txt.bak'', File), (''55deg.dat.txt'', File)]
     \<lparr>data_dir = None, parent_dir = None, stdout = []\<rparr> =
     (None, \<lparr>data_dir = None, parent_dir = None,
             stdout = [''Loading data for PS at the C-K at 45 degrees'',
                       ''Loading data for PS at the C-K at 55 degrees'']\<rparr>)"
proof -
  have a: "angle_of ''45deg.txt'' = ''45''" "angle_of ''55deg.dat.txt'' = ''55''"
    by code_simp+
  have s: "suffix_py ''45deg.txt'' = ''.txt''" "suffix_py ''45deg.csv'' = ''.csv''"
    "suffix_py ''README'' = []" "suffix_py ''20deg.TXT'' = ''.TXT''" "suffix_py ''.txt'' = []"
    "suffix_py ''30deg.txt.bak'' = ''.bak''" "suffix_py ''55deg.dat.txt'' = ''.txt''"
    by code_simp+
  show ?thesis
    unfolding only_txt_entries_print
    by (simp add: a s message_def)
qed

text \<open>
  C8. For the file "5deg.txt" the suffix is ".txt", the stem is "5deg", the piece before
  "deg" is "5", and its last-two-characters slice is "5" itself: the angle is "5" and no
  fault is raised; a run over a tree holding carbon/5deg.txt prints "... at 5 degrees".
\<close>

theorem five_deg_angle:
  "suffix_py ''5deg.txt'' = ''.txt'' \<and>
   stem_py ''5deg.txt'' = ''5deg'' \<and>
   split_py ''5deg'' ''deg'' = Inr [''5'', ''''] \<and>
   last2 ''5'' = ''5'' \<and>
   anlge ''5deg.txt'' = Inr ''5'' \<and>
   run \<lparr>data_dir = Some (Dir [(''PS'', Dir [(''carbon'', Dir [(''5deg.txt'', File)])])]),
        parent_dir = None, stdout = []\<rparr> =
     (None,
      \<lparr>data_dir = Some (Dir [(''PS'', Dir [(''carbon'', Dir [(''5deg.txt'', File)])])]),
        parent_dir = None,
        stdout = [''Loading data for PS at the C-K at 5 degrees'']\<rparr>)"
  by (simp add: run_def iterdir_def molecules_def stem_py_def suffix_py_def child_def edge_label_def
      upper_def upper_char_def anlge_def split_py_def last2_def print_def message_def)

text \<open>
  C9. A run changes nothing but standard output: the final state is the initial one with
  some lines appended to \<open>stdout\<close>; what \<open>data_path\<close> and its parent denote is unchanged,
  whether or not the run ends in a fault.
\<close>

theorem run_only_appends_to_stdout:
  "\<exists>lines. snd (run w) = w\<lparr>stdout := stdout w @ lines\<rparr>"
proof (cases "iterdir (data_dir w)")
  case (Inl e)
  then show ?thesis by (simp add: run_def frame_refl)
next
  case (Inr es)
  then show ?thesis by (simp add: run_def molecule_loop_frame)
qed

text \<open>
  C10. The ".txt" filter looks at the suffix of an entry only, never at its kind: an entry
  that is a directory is treated exactly as a regular file of the same name, and when its
  suffix is ".txt" a line is printed for it.
\<close>

theorem txt_filter_ignores_entry_kind:
  "file_loop molecule e ((name, Dir sub) # files) w = file_loop molecule e ((name, File) # files) w \<and>
   (suffix_py name = ''.txt'' \<longrightarrow>
      file_loop molecule e ((name, Dir sub) # files) w =
        file_loop molecule e files (print (message molecule e (angle_of name)) w))"
  by (simp add: anlge_eq)

theorem txt_filter_ignores_entry_kind_witness:
  "suffix_py ''70deg.txt'' = ''.txt'' \<and>
   file_loop ''PS'' ''C-K'' [(''70deg.txt'', Dir [(''inner.txt'', File)])]
       \<lparr>data_dir = None, parent_dir = None, stdout = []\<rparr> =
     (None, \<lparr>data_dir = None, parent_dir = None,
             stdout = [''Loading data for PS at the C-K at 70 degrees'']\<rparr>) \<and>
   file_loop ''PS'' ''C-K'' [(''70deg.txt'', File)]
       \<lparr>data_dir = None, parent_dir = None, stdout = []\<rparr> =
     (None, \<lparr>data_dir = None, parent_dir = None,
             stdout = [''Loading data for PS at the C-K at 70 degrees'']\<rparr>)"
  using txt_filter_ignores_entry_kind [of "''PS''" "''C-K''" "''70deg.txt''" "[(''inner.txt'', File)]" "[]"
      "\<lparr>data_dir = None, parent_dir = None, stdout = []\<rparr>"]
  by (simp add: suffix_py_def angle_of_def stem_py_def before_first_def
      first_occurrence_def occurs_at_def last2_def message_def print_def upt_rec)

end
